theory Spec2Isabelle
  imports Main
begin

section \<open>The parsed document\<close>

text \<open>
  \<^verbatim>\<open>Profile.__init__\<close> stores \<^verbatim>\<open>BeautifulSoup(html_str, "lxml")\<close> in \<^verbatim>\<open>self.soup\<close>.
  The parser is a library outside the repository; the accessors only walk the tree it
  returns. That tree is modelled as a value: a node is a text fragment
  (\<^verbatim>\<open>NavigableString\<close>) or a tag with a name, an attribute dictionary and its
  children in document order. The library splits \<^verbatim>\<open>class\<close> and \<^verbatim>\<open>rel\<close> into a list of
  tokens and leaves every other attribute a single string.

  A Python string is modelled by \<^typ>\<open>string\<close>, and a character of it is the code
  point \<^term>\<open>of_char c :: nat\<close>, below 256: the model holds the documents whose text is
  in that range.
\<close>

datatype attr_value = Single string | Multi "string list"

datatype node = Text string | Tag string "(string \<times> attr_value) list" "node list"

text \<open>\<^verbatim>\<open>Tag.descendants\<close>: every node below a tag, in document order.\<close>

fun descendants :: "node \<Rightarrow> node list" where
  "descendants (Text s) = []"
| "descendants (Tag n a cs) = concat (map (\<lambda>c. c # descendants c) cs)"

text \<open>
  The same walk, each node paired with the tag it is a child of, for \<^verbatim>\<open>.parent\<close>:
  a node of the tree is an object with an identity, and two equal subtrees have
  different parents.
\<close>

fun descendants_parent :: "node \<Rightarrow> (node \<times> node) list" where
  "descendants_parent (Text s) = []"
| "descendants_parent (Tag n a cs) =
     concat (map (\<lambda>c. (c, Tag n a cs) # descendants_parent c) cs)"

text \<open>
  What a search compares an attribute with: a string (\<^verbatim>\<open>class_="org"\<close>) or
  \<^verbatim>\<open>True\<close> (\<^verbatim>\<open>href=True\<close>, the attribute is there).
\<close>

datatype matcher = Exactly string | Present

fun join_tokens :: "string list \<Rightarrow> string" where
  "join_tokens [] = []"
| "join_tokens [t] = t"
| "join_tokens (t # ts) = t @ '' '' @ join_tokens ts"

text \<open>
  \<^verbatim>\<open>SoupStrainer._matches\<close>: a token list matches a string when one token is the
  string or the tokens joined by single spaces are; a missing attribute matches only
  the empty string.
\<close>

fun matches :: "attr_value option \<Rightarrow> matcher \<Rightarrow> bool" where
  "matches None (Exactly s) = (s = [])"
| "matches None Present = False"
| "matches (Some (Single v)) (Exactly s) = (v = s)"
| "matches (Some (Multi vs)) (Exactly s) = (s \<in> set vs \<or> join_tokens vs = s)"
| "matches (Some v) Present = True"

text \<open>
  \<^verbatim>\<open>SoupStrainer.search_tag\<close>: the tag name, when one is asked for, and every
  attribute asked for must match. A text fragment never matches a search by name or
  attribute.
\<close>

fun search_tag :: "string option \<Rightarrow> (string \<times> matcher) list \<Rightarrow> node \<Rightarrow> bool" where
  "search_tag nm ms (Text s) = False"
| "search_tag nm ms (Tag n a cs) =
     ((case nm of None \<Rightarrow> True | Some m \<Rightarrow> n = m) \<and>
      list_all (\<lambda>(k, m). matches (map_of a k) m) ms)"

definition find_all :: "string option \<Rightarrow> (string \<times> matcher) list \<Rightarrow> node \<Rightarrow> node list" where
  "find_all nm ms t = filter (search_tag nm ms) (descendants t)"

definition find_tag :: "string option \<Rightarrow> (string \<times> matcher) list \<Rightarrow> node \<Rightarrow> node option" where
  "find_tag nm ms t = (case find_all nm ms t of [] \<Rightarrow> None | e # es \<Rightarrow> Some e)"

definition by_class :: "string \<Rightarrow> (string \<times> matcher) list" where
  "by_class c = [(''class'', Exactly c)]"

text \<open>
  \<^verbatim>\<open>Tag.string\<close>: a tag with exactly one child has that child's string, any other
  tag has none; a text fragment is its own string.
\<close>

fun tag_string :: "node \<Rightarrow> string option" where
  "tag_string (Text s) = Some s"
| "tag_string (Tag n a [c]) = tag_string c"
| "tag_string (Tag n a cs) = None"

text \<open>\<^verbatim>\<open>Tag.strings\<close>: the text fragments below a tag, in document order.\<close>

fun texts :: "node list \<Rightarrow> string list" where
  "texts [] = []"
| "texts (Text s # ns) = s # texts ns"
| "texts (Tag n a cs # ns) = texts ns"

definition strings :: "node \<Rightarrow> string list" where
  "strings t = texts (descendants t)"

section \<open>Values, errors and the instance\<close>

datatype pyval = PNone | PStr string | PInt int | PList "pyval list"

datatype py_error = TypeError string | AttributeError | IndexError | KeyError | ValueError

text \<open>
  A \<^verbatim>\<open>Profile\<close> instance: the parsed document and the attributes the \<^verbatim>\<open>cache\<close>
  decorator sets on it, by name.
\<close>

record profile =
  soup :: node
  slots :: "string \<rightharpoonup> pyval"

definition Profile :: "node \<Rightarrow> profile" where
  "Profile doc = \<lparr>soup = doc, slots = Map.empty\<rparr>"

type_synonym accessor = "profile \<Rightarrow> (py_error + pyval) \<times> profile"

fun opt_val :: "string option \<Rightarrow> pyval" where
  "opt_val None = PNone"
| "opt_val (Some s) = PStr s"

section \<open>The cache decorator\<close>

text \<open>
  \<^verbatim>\<open>wrapper\<close>: when the instance has no attribute \<^verbatim>\<open>cache_var\<close>, run the wrapped
  function and store what it returns; then return the attribute. An exception of the
  wrapped function leaves the attribute unset.
\<close>

definition cache :: "string \<Rightarrow> accessor \<Rightarrow> accessor" where
  "cache cache_var func_to_wrap self =
     (case slots self cache_var of
        Some v \<Rightarrow> (Inr v, self)
      | None \<Rightarrow>
          (case func_to_wrap self of
             (Inl e, self') \<Rightarrow> (Inl e, self')
           | (Inr v, self') \<Rightarrow> (Inr v, self'\<lparr>slots := (slots self')(cache_var \<mapsto> v)\<rparr>)))"

section \<open>The accessors\<close>

definition name_body :: accessor where
  "name_body self =
     (case find_tag None (by_class ''pv-top-card-section__name Sans-26px-black-85%'') (soup self) of
        Some e \<Rightarrow> (Inr (opt_val (tag_string e)), self)
      | None \<Rightarrow>
          (case find_tag None [(''id'', Exactly ''name'')] (soup self) of
             Some e \<Rightarrow> (Inr (opt_val (tag_string e)), self)
           | None \<Rightarrow> (Inl (TypeError ''Name not found in profile HTML''), self)))"

definition name :: accessor where
  "name = cache ''__name'' name_body"

subsection \<open>String helpers\<close>

text \<open>
  The built-in string methods the accessors call, on code points below 256.
  \<^verbatim>\<open>str.isdigit\<close> accepts the ten decimal digits and the superscripts
  \<^verbatim>\<open>U+00B2\<close>, \<^verbatim>\<open>U+00B3\<close> and \<^verbatim>\<open>U+00B9\<close>; \<^verbatim>\<open>int\<close> reads decimal digits only and
  raises \<^verbatim>\<open>ValueError\<close> on a superscript.
\<close>

definition isdecimal_char :: "char \<Rightarrow> bool" where
  "isdecimal_char c = (48 \<le> (of_char c :: nat) \<and> (of_char c :: nat) \<le> 57)"

definition isdigit_char :: "char \<Rightarrow> bool" where
  "isdigit_char c =
     (isdecimal_char c \<or> (of_char c :: nat) = 178 \<or> (of_char c :: nat) = 179 \<or>
      (of_char c :: nat) = 185)"

definition digit_of :: "char \<Rightarrow> int" where
  "digit_of c = int (of_char c) - 48"

definition isdigit :: "string \<Rightarrow> bool" where
  "isdigit s = (s \<noteq> [] \<and> list_all isdigit_char s)"

text \<open>
  \<^verbatim>\<open>int(s)\<close> for the strings the accessors pass to it, all of which
  \<^verbatim>\<open>str.isdigit\<close> accepts: the decimal value when every character is a decimal digit,
  \<^verbatim>\<open>ValueError\<close> otherwise. The number of digits is not bounded, as in Python before
  3.11.
\<close>

definition int_of :: "string \<Rightarrow> py_error + int" where
  "int_of s =
     (if s \<noteq> [] \<and> list_all isdecimal_char s
      then Inr (foldl (\<lambda>v c. v * 10 + digit_of c) 0 s)
      else Inl ValueError)"

text \<open>
  \<^verbatim>\<open>str.strip\<close> removes the characters \<^verbatim>\<open>str.isspace\<close> accepts: 9 to 13, 28 to 32,
  \<^verbatim>\<open>U+0085\<close> and \<^verbatim>\<open>U+00A0\<close>. \<^verbatim>\<open>str.lower\<close> adds 32 to \<^verbatim>\<open>A\<close> to \<^verbatim>\<open>Z\<close> and to
  \<^verbatim>\<open>U+00C0\<close> to \<^verbatim>\<open>U+00DE\<close> but the multiplication sign \<^verbatim>\<open>U+00D7\<close>.
\<close>

definition isspace_char :: "char \<Rightarrow> bool" where
  "isspace_char c =
     ((9 \<le> (of_char c :: nat) \<and> (of_char c :: nat) \<le> 13) \<or>
      (28 \<le> (of_char c :: nat) \<and> (of_char c :: nat) \<le> 32) \<or>
      (of_char c :: nat) = 133 \<or> (of_char c :: nat) = 160)"

definition lower_char :: "char \<Rightarrow> char" where
  "lower_char c =
     (if (65 \<le> (of_char c :: nat) \<and> (of_char c :: nat) \<le> 90) \<or>
         (192 \<le> (of_char c :: nat) \<and> (of_char c :: nat) \<le> 222 \<and> (of_char c :: nat) \<noteq> 215)
      then char_of ((of_char c :: nat) + 32) else c)"

definition lower :: "string \<Rightarrow> string" where
  "lower s = map lower_char s"

definition strip :: "string \<Rightarrow> string" where
  "strip s = rev (dropWhile isspace_char (rev (dropWhile isspace_char s)))"

text \<open>
  \<^verbatim>\<open>s.split(sep, 1)\<close> cuts at the leftmost occurrence of \<^verbatim>\<open>sep\<close>; without one the
  list it returns has a single element.
\<close>

fun split_once :: "string \<Rightarrow> string \<Rightarrow> (string \<times> string) option" where
  "split_once sep [] = None"
| "split_once sep (c # cs) =
     (if take (length sep) (c # cs) = sep then Some ([], drop (length sep) (c # cs))
      else (case split_once sep cs of
              None \<Rightarrow> None
            | Some (before, after) \<Rightarrow> Some (c # before, after)))"

subsection \<open>skills\<close>

text \<open>
  \<^verbatim>\<open>Tag.get_attribute_list\<close>: the tokens of a list-valued attribute, a single
  value as a one-element list. For a missing attribute the library returns
  \<^verbatim>\<open>[None]\<close>, which holds no string; the model returns the empty list.
\<close>

fun get_attribute_list :: "string \<Rightarrow> node \<Rightarrow> string list" where
  "get_attribute_list k (Text s) = []"
| "get_attribute_list k (Tag n a cs) =
     (case map_of a k of None \<Rightarrow> [] | Some (Single v) \<Rightarrow> [v] | Some (Multi vs) \<Rightarrow> vs)"

text \<open>
  The loop over \<^verbatim>\<open>skills_html\<close>; the three \<^verbatim>\<open>continue\<close> tests come first, and
  \<^verbatim>\<open>skill.string.lower()\<close> raises when \<^verbatim>\<open>skill.string\<close> is \<^verbatim>\<open>None\<close>.
\<close>

fun skills_loop :: "node list \<Rightarrow> pyval list \<Rightarrow> py_error + pyval list" where
  "skills_loop [] skills_array = Inr skills_array"
| "skills_loop (skill # rest) skills_array =
     (if ''see-more'' \<in> set (get_attribute_list ''class'' skill) then skills_loop rest skills_array
      else if ''see-less'' \<in> set (get_attribute_list ''class'' skill) then skills_loop rest skills_array
      else if find_all None (by_class ''skill see-more'') skill \<noteq> [] then skills_loop rest skills_array
      else (case tag_string skill of
              None \<Rightarrow> Inl AttributeError
            | Some s \<Rightarrow> skills_loop rest (skills_array @ [PStr (strip (lower s))])))"

definition skills_html :: "node \<Rightarrow> node list" where
  "skills_html doc =
     (if length (find_all None (by_class ''pv-skill-entity__skill-name'') doc) = 0
      then find_all None (by_class ''skill'') doc
      else find_all None (by_class ''pv-skill-entity__skill-name'') doc)"

definition skills_body :: accessor where
  "skills_body self =
     (case skills_loop (skills_html (soup self)) [] of
        Inl e \<Rightarrow> (Inl e, self)
      | Inr skills_array \<Rightarrow> (Inr (PList skills_array), self))"

definition skills :: accessor where
  "skills = cache ''__skills'' skills_body"

subsection \<open>username, location\<close>

text \<open>
  \<^verbatim>\<open>url_links[0]\<close> raises \<^verbatim>\<open>IndexError\<close> on an empty result, and so does
  \<^verbatim>\<open>[1]\<close> on a URL without \<^verbatim>\<open>/in/\<close>.
\<close>

fun get_item :: "node \<Rightarrow> string \<Rightarrow> attr_value option" where
  "get_item (Text s) k = None"
| "get_item (Tag n a cs) k = map_of a k"

definition username_body :: accessor where
  "username_body self =
     (case find_all (Some ''link'') [(''rel'', Exactly ''canonical''), (''href'', Present)] (soup self) of
        [] \<Rightarrow> (Inl IndexError, self)
      | link # links \<Rightarrow>
          (case get_item link ''href'' of
             None \<Rightarrow> (Inl KeyError, self)
           | Some (Multi vs) \<Rightarrow> (Inl AttributeError, self)
           | Some (Single profile_url) \<Rightarrow>
               (case split_once ''/in/'' profile_url of
                  None \<Rightarrow> (Inl IndexError, self)
                | Some (before, after) \<Rightarrow> (Inr (PStr after), self))))"

definition username :: accessor where
  "username = cache ''__username'' username_body"



subsection \<open>all\_companies, current\_company\<close>

definition all_companies_body :: accessor where
  "all_companies_body self =
     (case find_tag None (by_class ''positions'') (soup self) of
        None \<Rightarrow> (Inr (PList []), self)
      | Some experience_tag \<Rightarrow>
          (Inr (PList (map (\<lambda>company. opt_val (tag_string company))
                  (find_all None (by_class ''item-subtitle'') experience_tag))), self))"

definition all_companies :: accessor where
  "all_companies = cache ''__all_companies'' all_companies_body"

text \<open>\<^verbatim>\<open>len(x)\<close> and \<^verbatim>\<open>x[0]\<close> on a value read back from the instance.\<close>

fun py_len :: "pyval \<Rightarrow> py_error + nat" where
  "py_len (PList xs) = Inr (length xs)"
| "py_len (PStr s) = Inr (length s)"
| "py_len v = Inl (TypeError ''object has no len()'')"

fun py_first :: "pyval \<Rightarrow> py_error + pyval" where
  "py_first (PList (x # xs)) = Inr x"
| "py_first (PList []) = Inl IndexError"
| "py_first (PStr (c # cs)) = Inr (PStr [c])"
| "py_first (PStr []) = Inl IndexError"
| "py_first v = Inl (TypeError ''object is not subscriptable'')"

definition current_company_body :: accessor where
  "current_company_body self =
     (case find_tag None [(''data-section'', Exactly ''currentPositionsDetails'')] (soup self) of
        Some company_tag \<Rightarrow>
          (case find_tag None (by_class ''org'') company_tag of
             None \<Rightarrow> (Inl AttributeError, self)
           | Some org \<Rightarrow> (Inr (opt_val (tag_string org)), self))
      | None \<Rightarrow>
          (case all_companies self of
             (Inl e, self') \<Rightarrow> (Inl e, self')
           | (Inr companies, self') \<Rightarrow>
               (case py_len companies of
                  Inl e \<Rightarrow> (Inl e, self')
                | Inr n \<Rightarrow>
                    if n \<noteq> 0 then (py_first companies, self')
                    else (case find_tag None (by_class ''headline title'') (soup self') of
                            Some headline \<Rightarrow> (Inr (opt_val (tag_string headline)), self')
                          | None \<Rightarrow> (Inr PNone, self')))))"

definition current_company :: accessor where
  "current_company = cache ''__current_company'' current_company_body"

subsection \<open>connection\_count\<close>

text \<open>
  The loop over \<^verbatim>\<open>conn_tag.strings\<close>; \<^verbatim>\<open>int(string)\<close> is reached for every fragment
  \<^verbatim>\<open>isdigit\<close> accepts and its exception ends the loop.
\<close>

fun connection_loop :: "string list \<Rightarrow> int \<Rightarrow> py_error + int" where
  "connection_loop [] cons = Inr cons"
| "connection_loop (s # ss) cons =
     (if isdigit s
      then (case int_of s of Inl e \<Rightarrow> Inl e | Inr n \<Rightarrow> connection_loop ss n)
      else if s = ''500+'' then connection_loop ss 500
      else connection_loop ss cons)"

definition connection_count_body :: accessor where
  "connection_count_body self =
     (case find_tag None (by_class ''member-connections'') (soup self) of
        None \<Rightarrow> (Inr PNone, self)
      | Some conn_tag \<Rightarrow>
          (case connection_loop (strings conn_tag) 0 of
             Inl e \<Rightarrow> (Inl e, self)
           | Inr cons \<Rightarrow> (Inr (PInt cons), self)))"

definition connection_count :: accessor where
  "connection_count = cache ''__connection_count'' connection_count_body"

subsection \<open>The accessors that are not cached\<close>

text \<open>
  The loop over the characters of the title; \<^verbatim>\<open>int(character)\<close> is reached for every
  character \<^verbatim>\<open>isdigit\<close> accepts and its exception ends the loop. Iterating over
  \<^verbatim>\<open>None\<close> raises \<^verbatim>\<open>TypeError\<close>.
\<close>

fun media_loop :: "string \<Rightarrow> int \<Rightarrow> py_error + int" where
  "media_loop [] media_num = Inr media_num"
| "media_loop (character # rest) media_num =
     (if isdigit_char character
      then (case int_of [character] of
              Inl e \<Rightarrow> Inl e
            | Inr d \<Rightarrow> media_loop rest (media_num * 10 + d))
      else media_loop rest media_num)"

definition get_media_number :: "profile \<Rightarrow> py_error + pyval" where
  "get_media_number self =
     (case find_tag None (by_class ''pv-treasury-carousel__subheadline'') (soup self) of
        None \<Rightarrow> Inr (PStr [])
      | Some media_title \<Rightarrow>
          (case tag_string media_title of
             None \<Rightarrow> Inl (TypeError ''NoneType object is not iterable'')
           | Some s \<Rightarrow>
               (case media_loop s 0 of
                  Inl e \<Rightarrow> Inl e
                | Inr media_num \<Rightarrow> Inr (PInt media_num))))"

text \<open>\<^verbatim>\<open>get_certification\<close> returns 0 on its first line; what follows never runs.\<close>

definition get_certification :: "profile \<Rightarrow> py_error + pyval" where
  "get_certification self = Inr (PInt 0)"

text \<open>
  \<^verbatim>\<open>get_languages\<close>, \<^verbatim>\<open>get_projects\<close>, \<^verbatim>\<open>get_awards\<close>, \<^verbatim>\<open>get_organizations\<close> and
  \<^verbatim>\<open>get_courses\<close> are the same text but for the two labels they compare a title with.
  \<^verbatim>\<open>accomp_tag.find_all\<close> raises \<^verbatim>\<open>AttributeError\<close> when both lookups of the
  container returned \<^verbatim>\<open>None\<close>.
\<close>

definition find_all_parent ::
  "string option \<Rightarrow> (string \<times> matcher) list \<Rightarrow> node \<Rightarrow> (node \<times> node) list" where
  "find_all_parent nm ms t = filter (\<lambda>(e, parent). search_tag nm ms e) (descendants_parent t)"

definition accomp_tag :: "node \<Rightarrow> node option" where
  "accomp_tag doc =
     (case find_tag None
        (by_class ''pv-profile-section artdeco-container-card pv-accomplishments-section ember-view'') doc of
        Some t \<Rightarrow> Some t
      | None \<Rightarrow> find_tag None
          (by_class ''pv-profile-section pv-accomplishments-section artdeco-container-card ember-view'') doc)"

fun section_loop :: "string \<Rightarrow> string \<Rightarrow> (node \<times> node) list \<Rightarrow> pyval list" where
  "section_loop l1 l2 [] = []"
| "section_loop l1 l2 ((section, parent) # rest) =
     (if tag_string section = Some l1 \<or> tag_string section = Some l2
      then map (\<lambda>item. opt_val (tag_string item))
             (find_all None (by_class ''pv-accomplishments-block__summary-list-item'') parent)
      else section_loop l1 l2 rest)"

definition accomplishments :: "string \<Rightarrow> string \<Rightarrow> profile \<Rightarrow> py_error + pyval" where
  "accomplishments l1 l2 self =
     (case accomp_tag (soup self) of
        None \<Rightarrow> Inl AttributeError
      | Some t \<Rightarrow>
          Inr (PList (section_loop l1 l2
                 (find_all_parent None (by_class ''pv-accomplishments-block__title'') t))))"

definition get_languages :: "profile \<Rightarrow> py_error + pyval" where
  "get_languages = accomplishments ''Language'' ''Languages''"

definition get_projects :: "profile \<Rightarrow> py_error + pyval" where
  "get_projects = accomplishments ''Project'' ''Projects''"

definition get_awards :: "profile \<Rightarrow> py_error + pyval" where
  "get_awards = accomplishments ''Honors & Awards'' ''Award''"

definition get_organizations :: "profile \<Rightarrow> py_error + pyval" where
  "get_organizations = accomplishments ''Organizations'' ''Organization''"

definition get_courses :: "profile \<Rightarrow> py_error + pyval" where
  "get_courses = accomplishments ''Courses'' ''Course''"

section \<open>Example documents\<close>

definition doc_name_primary :: node where
  "doc_name_primary = Tag ''[document]'' [] [Tag ''html'' [] [
     Tag ''span'' [(''id'', Single ''name'')] [Text ''Bob''],
     Tag ''h1'' [(''class'', Multi [''pv-top-card-section__name'', ''Sans-26px-black-85%''])] [Text ''Ann'']]]"

definition doc_name_id :: node where
  "doc_name_id = Tag ''[document]'' [] [Tag ''html'' [] [
     Tag ''h1'' [(''class'', Multi [''pv-top-card-section__name''])] [Text ''Ann''],
     Tag ''span'' [(''id'', Single ''name'')] [Text ''Bob'']]]"

definition doc_empty :: node where
  "doc_empty = Tag ''[document]'' [] [Tag ''html'' [] []]"

definition doc_name_nested :: node where
  "doc_name_nested = Tag ''[document]'' [] [Tag ''html'' [] [
     Tag ''h1'' [(''class'', Multi [''pv-top-card-section__name'', ''Sans-26px-black-85%''])]
       [Text ''Ann '', Tag ''b'' [] [Text ''Lee'']],
     Tag ''span'' [(''id'', Single ''name'')] [Text ''Bob'']]]"

definition doc_no_org :: node where
  "doc_no_org = Tag ''[document]'' [] [Tag ''html'' [] [
     Tag ''div'' [(''data-section'', Single ''currentPositionsDetails'')] [Tag ''span'' [] [Text ''Acme'']],
     Tag ''ul'' [(''class'', Multi [''positions''])]
       [Tag ''li'' [(''class'', Multi [''item-subtitle''])] [Text ''Initech'']],
     Tag ''p'' [(''class'', Multi [''headline'', ''title''])] [Text ''Engineer'']]]"

definition doc_media :: node where
  "doc_media = Tag ''[document]'' [] [Tag ''html'' [] [
     Tag ''div'' [(''class'', Multi [''pv-treasury-carousel__subheadline''])] [Text ''1,234 media'']]]"

definition doc_conn :: "node list \<Rightarrow> node" where
  "doc_conn cs = Tag ''[document]'' [] [Tag ''html'' [] [
     Tag ''div'' [(''class'', Multi [''member-connections''])] cs]]"

text \<open>
  The candidates the loop of \<^verbatim>\<open>skills\<close> passes over, and the ones it keeps.
\<close>

definition skill_skipped :: "node \<Rightarrow> bool" where
  "skill_skipped e =
     (''see-more'' \<in> set (get_attribute_list ''class'' e) \<or>
      ''see-less'' \<in> set (get_attribute_list ''class'' e) \<or>
      find_all None (by_class ''skill see-more'') e \<noteq> [])"

definition kept_skills :: "node \<Rightarrow> node list" where
  "kept_skills doc = filter (\<lambda>e. \<not> skill_skipped e) (skills_html doc)"

definition has_string :: "node \<Rightarrow> bool" where
  "has_string e = (tag_string e \<noteq> None)"

definition sanitized_skill :: "node \<Rightarrow> pyval" where
  "sanitized_skill e = PStr (strip (lower (the (tag_string e))))"

definition doc_skills :: node where
  "doc_skills = Tag ''[document]'' [] [Tag ''html'' [] [
     Tag ''span'' [(''class'', Multi [''pv-skill-entity__skill-name''])] [Text ''  Machine Learning ''],
     Tag ''span'' [(''class'', Multi [''pv-skill-entity__skill-name'', ''see-more''])] [Text ''See 3+''],
     Tag ''span'' [(''class'', Multi [''pv-skill-entity__skill-name'', ''see-less''])] [Text ''See less''],
     Tag ''span'' [(''class'', Multi [''pv-skill-entity__skill-name''])]
       [Tag ''a'' [(''class'', Multi [''skill'', ''see-more''])] [Text ''more'']],
     Tag ''span'' [(''class'', Multi [''skill''])] [Text ''Ignored''],
     Tag ''span'' [(''class'', Multi [''pv-skill-entity__skill-name''])] [Text ''SQL'']]]"

definition doc_skills_fallback :: node where
  "doc_skills_fallback = Tag ''[document]'' [] [Tag ''html'' [] [
     Tag ''li'' [(''class'', Multi [''skill''])] [Tag ''a'' [] [Text ''Java'']],
     Tag ''li'' [(''class'', Multi [''skill'', ''see-more''])] [Text ''See 5+'']]]"

definition doc_skill_markup :: node where
  "doc_skill_markup = Tag ''[document]'' [] [Tag ''html'' [] [
     Tag ''span'' [(''class'', Multi [''pv-skill-entity__skill-name''])]
       [Text ''Java '', Tag ''b'' [] [Text ''8'']]]]"

text \<open>
  Claim C3 in its own words: the three texts it lists, each absent when its element or
  its string is, and the first of them that is there.
\<close>

definition current_position_text :: "node \<Rightarrow> string option" where
  "current_position_text doc =
     (case find_tag None [(''data-section'', Exactly ''currentPositionsDetails'')] doc of
        None \<Rightarrow> None
      | Some company_tag \<Rightarrow>
          (case find_tag None (by_class ''org'') company_tag of
             None \<Rightarrow> None
           | Some org \<Rightarrow> tag_string org))"

definition first_company :: "node \<Rightarrow> string option" where
  "first_company doc =
     (case fst (all_companies (Profile doc)) of
        Inr (PList (PStr c # cs)) \<Rightarrow> Some c
      | _ \<Rightarrow> None)"

definition headline_text :: "node \<Rightarrow> string option" where
  "headline_text doc =
     (case find_tag None (by_class ''headline title'') doc of
        None \<Rightarrow> None
      | Some headline \<Rightarrow> tag_string headline)"

fun first_nonempty :: "string option list \<Rightarrow> string option" where
  "first_nonempty [] = None"
| "first_nonempty (None # alts) = first_nonempty alts"
| "first_nonempty (Some s # alts) = Some s"

definition current_company_claimed :: "node \<Rightarrow> pyval" where
  "current_company_claimed doc =
     opt_val (first_nonempty [current_position_text doc, first_company doc, headline_text doc])"

definition doc_org_markup :: node where
  "doc_org_markup = Tag ''[document]'' [] [Tag ''html'' [] [
     Tag ''div'' [(''data-section'', Single ''currentPositionsDetails'')]
       [Tag ''span'' [(''class'', Multi [''org''])] [Text ''Acme '', Tag ''b'' [] [Text ''Inc'']]],
     Tag ''ul'' [(''class'', Multi [''positions''])]
       [Tag ''li'' [(''class'', Multi [''item-subtitle''])] [Text ''Initech'']],
     Tag ''p'' [(''class'', Multi [''headline'', ''title''])] [Text ''Engineer'']]]"

definition doc_org :: node where
  "doc_org = Tag ''[document]'' [] [Tag ''html'' [] [
     Tag ''div'' [(''data-section'', Single ''currentPositionsDetails'')]
       [Tag ''span'' [(''class'', Multi [''org''])] [Text ''Acme'']],
     Tag ''ul'' [(''class'', Multi [''positions''])]
       [Tag ''li'' [(''class'', Multi [''item-subtitle''])] [Text ''Initech'']],
     Tag ''p'' [(''class'', Multi [''headline'', ''title''])] [Text ''Engineer'']]]"

definition doc_positions :: node where
  "doc_positions = Tag ''[document]'' [] [Tag ''html'' [] [
     Tag ''ul'' [(''class'', Multi [''positions''])]
       [Tag ''li'' [(''class'', Multi [''item-subtitle''])] [Text ''Initech''],
        Tag ''li'' [(''class'', Multi [''item-subtitle''])] [Text ''Globex'']],
     Tag ''p'' [(''class'', Multi [''headline'', ''title''])] [Text ''Engineer'']]]"

definition doc_headline :: node where
  "doc_headline = Tag ''[document]'' [] [Tag ''html'' [] [
     Tag ''p'' [(''class'', Multi [''headline'', ''title''])] [Text ''Engineer'']]]"

text \<open>
  An instance of \<^verbatim>\<open>doc_headline\<close> whose \<^verbatim>\<open>__all_companies\<close> attribute is already set.
\<close>

definition profile_cached_companies :: profile where
  "profile_cached_companies =
     \<lparr>soup = doc_headline, slots = [''__all_companies'' \<mapsto> PList [PStr ''Hooli'']]\<rparr>"

text \<open>
  The seven cached accessors, each with the attribute its decorator names and the
  function the decorator wraps.
\<close>

datatype field =
  Name | Skills | Username | Location | Current_company | All_companies | Connection_count






text \<open>
  A character \<^verbatim>\<open>str.isdigit\<close> accepts and \<^verbatim>\<open>int\<close> rejects, and the value of a
  string of decimal digits.
\<close>

definition superscript_char :: "char \<Rightarrow> bool" where
  "superscript_char c = (isdigit_char c \<and> \<not> isdecimal_char c)"

definition decimal_value :: "string \<Rightarrow> int" where
  "decimal_value s = foldl (\<lambda>v c. v * 10 + digit_of c) 0 s"

definition doc_media_superscript :: node where
  "doc_media_superscript = Tag ''[document]'' [] [Tag ''html'' [] [
     Tag ''div'' [(''class'', Multi [''pv-treasury-carousel__subheadline''])]
       [Text (''12 m'' @ [CHR 0xB2])]]]"

text \<open>
  The fragments the loop of \<^verbatim>\<open>connection_count\<close> reacts to, the value the last of
  them stands for, and the fragments on which \<^verbatim>\<open>int\<close> raises.
\<close>

definition matching_fragments :: "string list \<Rightarrow> string list" where
  "matching_fragments ss = filter (\<lambda>s. isdigit s \<or> s = ''500+'') ss"

definition last_fragment_value :: "string list \<Rightarrow> int" where
  "last_fragment_value ss =
     (if matching_fragments ss = [] then 0
      else if isdigit (last (matching_fragments ss)) then decimal_value (last (matching_fragments ss))
      else 500)"

definition rejected_fragment :: "string \<Rightarrow> bool" where
  "rejected_fragment s = (isdigit s \<and> list_ex superscript_char s)"

definition doc_skills_accent :: node where
  "doc_skills_accent = Tag ''[document]'' [] [Tag ''html'' [] [
     Tag ''span'' [(''class'', Multi [''pv-skill-entity__skill-name''])]
       [Text ([CHR 0xA0, CHR 0xC9] @ ''COLE'' @ [CHR 0xA0])]]]"

section \<open>Properties\<close>

lemma cache_hit: "slots self cv = Some v \<Longrightarrow> cache cv f self = (Inr v, self)"
  by (simp add: cache_def)

lemma cache_miss:
  "slots self cv = None \<Longrightarrow>
   cache cv f self =
     (case f self of (Inl e, self') \<Rightarrow> (Inl e, self')
      | (Inr v, self') \<Rightarrow> (Inr v, self'\<lparr>slots := (slots self')(cv \<mapsto> v)\<rparr>))"
  by (simp add: cache_def)

lemma fst_cache_fresh: "fst (cache cv f (Profile doc)) = fst (f (Profile doc))"
  by (simp add: cache_miss Profile_def split: prod.splits sum.splits)

text \<open>
  Claim C1. \<^verbatim>\<open>name\<close> returns the string of the first element whose class is
  \<^verbatim>\<open>pv-top-card-section__name Sans-26px-black-85%\<close> when there is one; when there is
  none it returns the string of the first element with id \<^verbatim>\<open>name\<close>; when there is
  neither it raises \<^verbatim>\<open>TypeError("Name not found in profile HTML")\<close> and returns no
  value at all.
\<close>

theorem name_fallback_order:
  "(\<forall>e. find_tag None (by_class ''pv-top-card-section__name Sans-26px-black-85%'') doc = Some e
      \<longrightarrow> fst (name (Profile doc)) = Inr (opt_val (tag_string e))) \<and>
   (\<forall>e. find_tag None (by_class ''pv-top-card-section__name Sans-26px-black-85%'') doc = None \<and>
        find_tag None [(''id'', Exactly ''name'')] doc = Some e
      \<longrightarrow> fst (name (Profile doc)) = Inr (opt_val (tag_string e))) \<and>
   (find_tag None (by_class ''pv-top-card-section__name Sans-26px-black-85%'') doc = None \<and>
    find_tag None [(''id'', Exactly ''name'')] doc = None
      \<longrightarrow> fst (name (Profile doc)) = Inl (TypeError ''Name not found in profile HTML'') \<and>
          (\<forall>v. fst (name (Profile doc)) \<noteq> Inr v))"
  by (simp add: name_def fst_cache_fresh name_body_def) (simp add: Profile_def)

theorem name_fallback_order_witness:
  "find_tag None (by_class ''pv-top-card-section__name Sans-26px-black-85%'') doc_name_primary
     = Some (Tag ''h1'' [(''class'', Multi [''pv-top-card-section__name'', ''Sans-26px-black-85%''])] [Text ''Ann'']) \<and>
   fst (name (Profile doc_name_primary)) = Inr (PStr ''Ann'') \<and>
   find_tag None (by_class ''pv-top-card-section__name Sans-26px-black-85%'') doc_name_id = None \<and>
   find_tag None [(''id'', Exactly ''name'')] doc_name_id = Some (Tag ''span'' [(''id'', Single ''name'')] [Text ''Bob'']) \<and>
   fst (name (Profile doc_name_id)) = Inr (PStr ''Bob'') \<and>
   find_tag None (by_class ''pv-top-card-section__name Sans-26px-black-85%'') doc_empty = None \<and>
   find_tag None [(''id'', Exactly ''name'')] doc_empty = None \<and>
   fst (name (Profile doc_empty)) = Inl (TypeError ''Name not found in profile HTML'')"
proof -
  have p: "find_tag None (by_class ''pv-top-card-section__name Sans-26px-black-85%'') doc_name_primary
     = Some (Tag ''h1'' [(''class'', Multi [''pv-top-card-section__name'', ''Sans-26px-black-85%''])] [Text ''Ann''])"
    by code_simp
  have i1: "find_tag None (by_class ''pv-top-card-section__name Sans-26px-black-85%'') doc_name_id = None"
    by code_simp
  have i2: "find_tag None [(''id'', Exactly ''name'')] doc_name_id = Some (Tag ''span'' [(''id'', Single ''name'')] [Text ''Bob''])"
    by code_simp
  have e1: "find_tag None (by_class ''pv-top-card-section__name Sans-26px-black-85%'') doc_empty = None"
    by code_simp
  have e2: "find_tag None [(''id'', Exactly ''name'')] doc_empty = None"
    by code_simp
  show ?thesis
    using p i1 i2 e1 e2 name_fallback_order [of doc_name_primary]
      name_fallback_order [of doc_name_id] name_fallback_order [of doc_empty]
    by simp
qed

text \<open>
  Claim C9. When the element of the primary name class exists and its \<^verbatim>\<open>.string\<close> is
  \<^verbatim>\<open>None\<close>, \<^verbatim>\<open>name\<close> returns \<^verbatim>\<open>None\<close>: it raises nothing and does not look for
  the element with id \<^verbatim>\<open>name\<close>.
\<close>

theorem name_without_text:
  "find_tag None (by_class ''pv-top-card-section__name Sans-26px-black-85%'') doc = Some e \<Longrightarrow>
   tag_string e = None \<Longrightarrow>
   fst (name (Profile doc)) = Inr PNone"
  by (simp add: name_def fst_cache_fresh name_body_def) (simp add: Profile_def)

theorem name_without_text_witness:
  "find_tag None (by_class ''pv-top-card-section__name Sans-26px-black-85%'') doc_name_nested
     = Some (Tag ''h1'' [(''class'', Multi [''pv-top-card-section__name'', ''Sans-26px-black-85%''])]
         [Text ''Ann '', Tag ''b'' [] [Text ''Lee'']]) \<and>
   tag_string (Tag ''h1'' [(''class'', Multi [''pv-top-card-section__name'', ''Sans-26px-black-85%''])]
         [Text ''Ann '', Tag ''b'' [] [Text ''Lee'']]) = None \<and>
   find_tag None [(''id'', Exactly ''name'')] doc_name_nested
     = Some (Tag ''span'' [(''id'', Single ''name'')] [Text ''Bob'']) \<and>
   fst (name (Profile doc_name_nested)) = Inr PNone"
proof -
  have f: "find_tag None (by_class ''pv-top-card-section__name Sans-26px-black-85%'') doc_name_nested
     = Some (Tag ''h1'' [(''class'', Multi [''pv-top-card-section__name'', ''Sans-26px-black-85%''])]
         [Text ''Ann '', Tag ''b'' [] [Text ''Lee'']])"
    by code_simp
  have s: "tag_string (Tag ''h1'' [(''class'', Multi [''pv-top-card-section__name'', ''Sans-26px-black-85%''])]
         [Text ''Ann '', Tag ''b'' [] [Text ''Lee'']]) = None"
    by simp
  have i: "find_tag None [(''id'', Exactly ''name'')] doc_name_nested
     = Some (Tag ''span'' [(''id'', Single ''name'')] [Text ''Bob''])"
    by code_simp
  from name_without_text [OF f s] f s i show ?thesis by simp
qed

text \<open>
  Claim C10. When an element with \<^verbatim>\<open>data-section="currentPositionsDetails"\<close> exists and
  has no descendant of class \<^verbatim>\<open>org\<close>, \<^verbatim>\<open>current_company\<close> raises
  \<^verbatim>\<open>AttributeError\<close>; it does not go on to \<^verbatim>\<open>all_companies\<close> or the headline.
\<close>

theorem current_company_without_org:
  "find_tag None [(''data-section'', Exactly ''currentPositionsDetails'')] doc = Some company_tag \<Longrightarrow>
   find_tag None (by_class ''org'') company_tag = None \<Longrightarrow>
   fst (current_company (Profile doc)) = Inl AttributeError"
  by (simp add: current_company_def fst_cache_fresh current_company_body_def) (simp add: Profile_def)

theorem current_company_without_org_witness:
  "find_tag None [(''data-section'', Exactly ''currentPositionsDetails'')] doc_no_org
     = Some (Tag ''div'' [(''data-section'', Single ''currentPositionsDetails'')] [Tag ''span'' [] [Text ''Acme'']]) \<and>
   find_tag None (by_class ''org'')
     (Tag ''div'' [(''data-section'', Single ''currentPositionsDetails'')] [Tag ''span'' [] [Text ''Acme'']]) = None \<and>
   fst (all_companies (Profile doc_no_org)) = Inr (PList [PStr ''Initech'']) \<and>
   fst (current_company (Profile doc_no_org)) = Inl AttributeError"
proof -
  have f: "find_tag None [(''data-section'', Exactly ''currentPositionsDetails'')] doc_no_org
     = Some (Tag ''div'' [(''data-section'', Single ''currentPositionsDetails'')] [Tag ''span'' [] [Text ''Acme'']])"
    by code_simp
  have g: "find_tag None (by_class ''org'')
     (Tag ''div'' [(''data-section'', Single ''currentPositionsDetails'')] [Tag ''span'' [] [Text ''Acme'']]) = None"
    by code_simp
  have a: "fst (all_companies (Profile doc_no_org)) = Inr (PList [PStr ''Initech''])"
    by code_simp
  from current_company_without_org [OF f g] f g a show ?thesis by simp
qed

text \<open>
  Claim C4. Without an element of either spelling of the accomplishments container,
  \<^verbatim>\<open>get_languages\<close>, \<^verbatim>\<open>get_courses\<close>, \<^verbatim>\<open>get_awards\<close>, \<^verbatim>\<open>get_organizations\<close> and
  \<^verbatim>\<open>get_projects\<close> raise \<^verbatim>\<open>AttributeError\<close>; without a canonical link carrying an
  \<^verbatim>\<open>href\<close>, \<^verbatim>\<open>username\<close> raises \<^verbatim>\<open>IndexError\<close>.
\<close>

theorem missing_structure_raises:
  "(find_tag None
      (by_class ''pv-profile-section artdeco-container-card pv-accomplishments-section ember-view'')
      (soup self) = None \<and>
    find_tag None
      (by_class ''pv-profile-section pv-accomplishments-section artdeco-container-card ember-view'')
      (soup self) = None
    \<longrightarrow> get_languages self = Inl AttributeError \<and> get_courses self = Inl AttributeError \<and>
        get_awards self = Inl AttributeError \<and> get_organizations self = Inl AttributeError \<and>
        get_projects self = Inl AttributeError) \<and>
   (find_all (Some ''link'') [(''rel'', Exactly ''canonical''), (''href'', Present)] doc = []
    \<longrightarrow> fst (username (Profile doc)) = Inl IndexError)"
  by (simp add: get_languages_def get_courses_def get_awards_def get_organizations_def
      get_projects_def accomplishments_def accomp_tag_def username_def fst_cache_fresh
      username_body_def)
    (simp add: Profile_def)

theorem missing_structure_raises_witness:
  "find_tag None
      (by_class ''pv-profile-section artdeco-container-card pv-accomplishments-section ember-view'')
      (soup (Profile doc_media)) = None \<and>
   find_tag None
      (by_class ''pv-profile-section pv-accomplishments-section artdeco-container-card ember-view'')
      (soup (Profile doc_media)) = None \<and>
   get_languages (Profile doc_media) = Inl AttributeError \<and>
   get_courses (Profile doc_media) = Inl AttributeError \<and>
   get_awards (Profile doc_media) = Inl AttributeError \<and>
   get_organizations (Profile doc_media) = Inl AttributeError \<and>
   get_projects (Profile doc_media) = Inl AttributeError \<and>
   find_all (Some ''link'') [(''rel'', Exactly ''canonical''), (''href'', Present)] doc_media = [] \<and>
   fst (username (Profile doc_media)) = Inl IndexError"
proof -
  have a: "find_tag None
      (by_class ''pv-profile-section artdeco-container-card pv-accomplishments-section ember-view'')
      (soup (Profile doc_media)) = None"
    by code_simp
  have b: "find_tag None
      (by_class ''pv-profile-section pv-accomplishments-section artdeco-container-card ember-view'')
      (soup (Profile doc_media)) = None"
    by code_simp
  have c: "find_all (Some ''link'') [(''rel'', Exactly ''canonical''), (''href'', Present)] doc_media = []"
    by code_simp
  from missing_structure_raises [of "Profile doc_media" doc_media] a b c show ?thesis by simp
qed

text \<open>
  Claim C7. \<^verbatim>\<open>get_certification\<close> returns the constant 0 on every instance, whatever
  the document holds.
\<close>

theorem get_certification_constant: "get_certification self = Inr (PInt 0)"
  by (simp add: get_certification_def)

lemma soup_cache:
  "(\<And>s. soup (snd (f s)) = soup s) \<Longrightarrow> soup (snd (cache cv f self)) = soup self"
  by (simp add: cache_def split: option.splits prod.splits sum.splits)
    (metis snd_conv)

lemma soup_all_companies: "soup (snd (all_companies self)) = soup self"
  unfolding all_companies_def
  by (rule soup_cache) (simp add: all_companies_body_def split: option.splits)












lemma int_of_char:
  "isdigit_char c \<Longrightarrow>
   int_of [c] = (if superscript_char c then Inl ValueError else Inr (digit_of c))"
  by (simp add: int_of_def superscript_char_def)

lemma media_loop_fold:
  "media_loop t n =
     (if list_ex superscript_char t then Inl ValueError
      else Inr (foldl (\<lambda>v c. v * 10 + digit_of c) n (filter isdecimal_char t)))"
proof (induction t arbitrary: n)
  case Nil
  then show ?case by simp
next
  case (Cons c t)
  show ?case
  proof (cases "isdigit_char c")
    case True
    with Cons show ?thesis
      by (simp add: int_of_char) (simp add: superscript_char_def)
  next
    case False
    with Cons show ?thesis
      by (simp add: superscript_char_def isdigit_char_def)
  qed
qed

text \<open>
  Where the title has no superscript digit, \<^verbatim>\<open>get_media_number\<close> is the fold of
  \<^verbatim>\<open>value * 10 + digit\<close> over its decimal digits; and without the element it is the
  empty string.
\<close>

lemma get_media_number_digits:
  "(\<forall>e t. find_tag None (by_class ''pv-treasury-carousel__subheadline'') (soup self) = Some e \<and>
          tag_string e = Some t \<and> \<not> list_ex superscript_char t
      \<longrightarrow> get_media_number self =
            Inr (PInt (foldl (\<lambda>v c. v * 10 + digit_of c) 0 (filter isdecimal_char t)))) \<and>
   (\<forall>e t. find_tag None (by_class ''pv-treasury-carousel__subheadline'') (soup self) = Some e \<and>
          tag_string e = Some t \<and> list_ex superscript_char t
      \<longrightarrow> get_media_number self = Inl ValueError) \<and>
   (find_tag None (by_class ''pv-treasury-carousel__subheadline'') (soup self) = None
      \<longrightarrow> get_media_number self = Inr (PStr []))"
  by (simp add: get_media_number_def media_loop_fold)

lemma get_media_number_examples:
  "get_media_number (Profile doc_media) = Inr (PInt 1234) \<and>
   get_media_number (Profile doc_empty) = Inr (PStr [])"
  by code_simp

text \<open>
  Claim C8 fails on the code. On a subheadline whose string is \<^verbatim>\<open>12 m\<close> followed by
  the superscript two \<^verbatim>\<open>U+00B2\<close>, a character \<^verbatim>\<open>isdigit\<close> accepts,
  \<^verbatim>\<open>int(character)\<close> raises \<^verbatim>\<open>ValueError\<close> and \<^verbatim>\<open>get_media_number\<close> returns no
  number, where the claim has it return the fold over the digits.
\<close>

theorem get_media_number_superscript:
  "find_tag None (by_class ''pv-treasury-carousel__subheadline'') doc_media_superscript
     = Some (Tag ''div'' [(''class'', Multi [''pv-treasury-carousel__subheadline''])]
         [Text (''12 m'' @ [CHR 0xB2])]) \<and>
   tag_string (Tag ''div'' [(''class'', Multi [''pv-treasury-carousel__subheadline''])]
         [Text (''12 m'' @ [CHR 0xB2])]) = Some (''12 m'' @ [CHR 0xB2]) \<and>
   isdigit_char (CHR 0xB2) \<and>
   int_of [CHR 0xB2] = Inl ValueError \<and>
   get_media_number (Profile doc_media_superscript) = Inl ValueError"
proof -
  have a: "find_tag None (by_class ''pv-treasury-carousel__subheadline'') doc_media_superscript
     = Some (Tag ''div'' [(''class'', Multi [''pv-treasury-carousel__subheadline''])]
         [Text (''12 m'' @ [CHR 0xB2])])"
    by code_simp
  have b: "isdigit_char (CHR 0xB2)"
    by code_simp
  have c: "int_of [CHR 0xB2] = Inl ValueError"
    by code_simp
  have d: "get_media_number (Profile doc_media_superscript) = Inl ValueError"
    by code_simp
  from a b c d show ?thesis by simp
qed

lemma connection_loop_last:
  "connection_loop ss cons =
     (if list_ex rejected_fragment ss then Inl ValueError
      else Inr (if matching_fragments ss = [] then cons
                else if isdigit (last (matching_fragments ss))
                     then decimal_value (last (matching_fragments ss))
                     else 500))"
proof (induction ss arbitrary: cons)
  case Nil
  then show ?case by (simp add: matching_fragments_def)
next
  case (Cons s ss)
  have r: "rejected_fragment s = (isdigit s \<and> \<not> list_all isdecimal_char s)"
    by (auto simp: rejected_fragment_def isdigit_def superscript_char_def list_all_iff list_ex_iff)
  show ?case
  proof (cases "isdigit s")
    case True
    then have ne: "s \<noteq> []" by (simp add: isdigit_def)
    show ?thesis
    proof (cases "list_all isdecimal_char s")
      case True
      with ne have "int_of s = Inr (decimal_value s)"
        by (simp add: int_of_def decimal_value_def)
      with \<open>isdigit s\<close> True Cons show ?thesis
        by (simp add: r matching_fragments_def)
    next
      case False
      with ne have "int_of s = Inl ValueError"
        by (simp add: int_of_def)
      with \<open>isdigit s\<close> False show ?thesis
        by (simp add: r)
    qed
  next
    case False
    with Cons show ?thesis
      by (auto simp: r matching_fragments_def)
  qed
qed

text \<open>
  Where no fragment is rejected by \<^verbatim>\<open>int\<close>, \<^verbatim>\<open>connection_count\<close> is the value of
  the last all-digit or \<^verbatim>\<open>500+\<close> fragment of the element, 0 without one; and without
  the element it is \<^verbatim>\<open>None\<close>.
\<close>

lemma connection_count_last_fragment:
  "(find_tag None (by_class ''member-connections'') doc = None
      \<longrightarrow> fst (connection_count (Profile doc)) = Inr PNone) \<and>
   (\<forall>conn_tag. find_tag None (by_class ''member-connections'') doc = Some conn_tag \<and>
        \<not> list_ex rejected_fragment (strings conn_tag)
      \<longrightarrow> fst (connection_count (Profile doc)) = Inr (PInt (last_fragment_value (strings conn_tag)))) \<and>
   (\<forall>conn_tag. find_tag None (by_class ''member-connections'') doc = Some conn_tag \<and>
        list_ex rejected_fragment (strings conn_tag)
      \<longrightarrow> fst (connection_count (Profile doc)) = Inl ValueError)"
  by (simp add: connection_count_def fst_cache_fresh connection_count_body_def)
    (auto simp: Profile_def connection_loop_last last_fragment_value_def)

lemma connection_count_examples:
  "fst (connection_count (Profile doc_empty)) = Inr PNone \<and>
   fst (connection_count (Profile (doc_conn [Text ''500+'']))) = Inr (PInt 500) \<and>
   fst (connection_count (Profile (doc_conn [Text ''37'']))) = Inr (PInt 37) \<and>
   fst (connection_count (Profile (doc_conn []))) = Inr (PInt 0) \<and>
   fst (connection_count (Profile
       (doc_conn [Tag ''b'' [] [Text ''500+''], Text '' and '', Tag ''b'' [] [Text ''12''], Text '' connections''])))
     = Inr (PInt 12)"
  by code_simp

text \<open>
  Claim C6 fails on the code. On a connections element whose only text fragment is the
  superscript two \<^verbatim>\<open>U+00B2\<close>, \<^verbatim>\<open>string.isdigit()\<close> holds, \<^verbatim>\<open>int(string)\<close> raises
  \<^verbatim>\<open>ValueError\<close> and \<^verbatim>\<open>connection_count\<close> returns no number, where the claim has it
  return an integer.
\<close>

theorem connection_count_superscript:
  "find_tag None (by_class ''member-connections'') (doc_conn [Text [CHR 0xB2]])
     = Some (Tag ''div'' [(''class'', Multi [''member-connections''])] [Text [CHR 0xB2]]) \<and>
   strings (Tag ''div'' [(''class'', Multi [''member-connections''])] [Text [CHR 0xB2]]) = [[CHR 0xB2]] \<and>
   isdigit [CHR 0xB2] \<and>
   int_of [CHR 0xB2] = Inl ValueError \<and>
   fst (connection_count (Profile (doc_conn [Text [CHR 0xB2]]))) = Inl ValueError"
proof -
  have a: "find_tag None (by_class ''member-connections'') (doc_conn [Text [CHR 0xB2]])
     = Some (Tag ''div'' [(''class'', Multi [''member-connections''])] [Text [CHR 0xB2]])"
    by code_simp
  have b: "strings (Tag ''div'' [(''class'', Multi [''member-connections''])] [Text [CHR 0xB2]]) = [[CHR 0xB2]]"
    by code_simp
  have c: "isdigit [CHR 0xB2]"
    by code_simp
  have d: "int_of [CHR 0xB2] = Inl ValueError"
    by code_simp
  have e: "fst (connection_count (Profile (doc_conn [Text [CHR 0xB2]]))) = Inl ValueError"
    by code_simp
  from a b c d e show ?thesis by simp
qed

lemma skills_loop_kept:
  "skills_loop es acc =
     (if list_all has_string (filter (\<lambda>e. \<not> skill_skipped e) es)
      then Inr (acc @ map sanitized_skill (filter (\<lambda>e. \<not> skill_skipped e) es))
      else Inl AttributeError)"
  by (induction es arbitrary: acc)
    (auto simp: skill_skipped_def has_string_def sanitized_skill_def split: option.splits)

text \<open>
  Where each candidate the loop keeps has a string, \<^verbatim>\<open>skills\<close> is the list of those
  strings, lowercased and stripped, in document order; the candidates are the elements of
  class \<^verbatim>\<open>pv-skill-entity__skill-name\<close>, or those of class \<^verbatim>\<open>skill\<close> when there are
  none of the first.
\<close>

lemma skills_kept_candidates:
  "fst (skills (Profile doc)) =
     (if list_all has_string (kept_skills doc)
      then Inr (PList (map sanitized_skill (kept_skills doc)))
      else Inl AttributeError) \<and>
   skills_html doc =
     (if find_all None (by_class ''pv-skill-entity__skill-name'') doc = []
      then find_all None (by_class ''skill'') doc
      else find_all None (by_class ''pv-skill-entity__skill-name'') doc) \<and>
   (skills_html doc = [] \<longrightarrow> fst (skills (Profile doc)) = Inr (PList []))"
  by (simp add: skills_def fst_cache_fresh skills_body_def)
    (simp add: Profile_def skills_loop_kept kept_skills_def skills_html_def)

lemma skills_examples:
  "fst (skills (Profile doc_skills)) = Inr (PList [PStr ''machine learning'', PStr ''sql'']) \<and>
   fst (skills (Profile doc_skills_fallback)) = Inr (PList [PStr ''java'']) \<and>
   fst (skills (Profile doc_skills_accent)) = Inr (PList [PStr (CHR 0xE9 # ''cole'')]) \<and>
   fst (skills (Profile doc_empty)) = Inr (PList [])"
  by code_simp

text \<open>
  Claim C5 fails on the code. A candidate that holds markup beside its text is kept by
  the three tests and has no string: \<^verbatim>\<open>skill.string\<close> is \<^verbatim>\<open>None\<close>,
  \<^verbatim>\<open>skill.string.lower()\<close> raises \<^verbatim>\<open>AttributeError\<close> and \<^verbatim>\<open>skills\<close> returns no
  list, where the claim has it return the texts of the candidates it keeps.
\<close>

theorem skills_candidate_without_string:
  "kept_skills doc_skill_markup =
     [Tag ''span'' [(''class'', Multi [''pv-skill-entity__skill-name''])]
        [Text ''Java '', Tag ''b'' [] [Text ''8'']]] \<and>
   fst (skills (Profile doc_skill_markup)) = Inl AttributeError \<and>
   (\<forall>v. fst (skills (Profile doc_skill_markup)) \<noteq> Inr v)"
proof -
  have k: "kept_skills doc_skill_markup =
     [Tag ''span'' [(''class'', Multi [''pv-skill-entity__skill-name''])]
        [Text ''Java '', Tag ''b'' [] [Text ''8'']]]"
    by code_simp
  have r: "fst (skills (Profile doc_skill_markup)) = Inl AttributeError"
    by code_simp
  from k r show ?thesis by simp
qed

text \<open>
  \<^verbatim>\<open>current_company\<close> takes the first alternative whose element is there: the string of
  the \<^verbatim>\<open>org\<close> element of the current-position section; without a section, the first
  entry of what the \<^verbatim>\<open>all_companies\<close> accessor returns, its stored value when the
  instance has one; with an empty list, the string of the headline element, and
  \<^verbatim>\<open>None\<close> without one.
\<close>

lemma current_company_order:
  assumes "slots self ''__current_company'' = None"
  shows
  "(\<forall>company_tag org.
      find_tag None [(''data-section'', Exactly ''currentPositionsDetails'')] (soup self) = Some company_tag \<and>
      find_tag None (by_class ''org'') company_tag = Some org
      \<longrightarrow> fst (current_company self) = Inr (opt_val (tag_string org))) \<and>
   (\<forall>c cs.
      find_tag None [(''data-section'', Exactly ''currentPositionsDetails'')] (soup self) = None \<and>
      fst (all_companies self) = Inr (PList (c # cs))
      \<longrightarrow> fst (current_company self) = Inr c) \<and>
   (\<forall>headline.
      find_tag None [(''data-section'', Exactly ''currentPositionsDetails'')] (soup self) = None \<and>
      fst (all_companies self) = Inr (PList []) \<and>
      find_tag None (by_class ''headline title'') (soup self) = Some headline
      \<longrightarrow> fst (current_company self) = Inr (opt_val (tag_string headline))) \<and>
   (find_tag None [(''data-section'', Exactly ''currentPositionsDetails'')] (soup self) = None \<and>
      fst (all_companies self) = Inr (PList []) \<and>
      find_tag None (by_class ''headline title'') (soup self) = None
      \<longrightarrow> fst (current_company self) = Inr PNone) \<and>
   (\<forall>v. slots self ''__all_companies'' = Some v \<longrightarrow> fst (all_companies self) = Inr v)"
proof -
  have body: "fst (current_company self) = fst (current_company_body self)"
    using assms
    by (simp add: current_company_def cache_miss split: prod.splits sum.splits)
  have a: "fst (current_company_body self) = Inr (opt_val (tag_string org))"
    if "find_tag None [(''data-section'', Exactly ''currentPositionsDetails'')] (soup self) = Some company_tag"
      and "find_tag None (by_class ''org'') company_tag = Some org" for company_tag org
    using that by (simp add: current_company_body_def)
  have b: "fst (current_company_body self) = Inr c"
    if h1: "find_tag None [(''data-section'', Exactly ''currentPositionsDetails'')] (soup self) = None"
      and h2: "fst (all_companies self) = Inr (PList (c # cs))" for c cs
  proof -
    obtain s' where "all_companies self = (Inr (PList (c # cs)), s')"
      using h2 by (cases "all_companies self") simp
    with h1 show ?thesis by (simp add: current_company_body_def)
  qed
  have c: "fst (current_company_body self) = Inr (opt_val (tag_string headline))"
    if h1: "find_tag None [(''data-section'', Exactly ''currentPositionsDetails'')] (soup self) = None"
      and h2: "fst (all_companies self) = Inr (PList [])"
      and h3: "find_tag None (by_class ''headline title'') (soup self) = Some headline" for headline
  proof -
    obtain s' where s': "all_companies self = (Inr (PList []), s')"
      using h2 by (cases "all_companies self") simp
    with soup_all_companies [of self] have "soup s' = soup self" by simp
    with s' h1 h3 show ?thesis by (simp add: current_company_body_def)
  qed
  have d: "fst (current_company_body self) = Inr PNone"
    if h1: "find_tag None [(''data-section'', Exactly ''currentPositionsDetails'')] (soup self) = None"
      and h2: "fst (all_companies self) = Inr (PList [])"
      and h3: "find_tag None (by_class ''headline title'') (soup self) = None"
  proof -
    obtain s' where s': "all_companies self = (Inr (PList []), s')"
      using h2 by (cases "all_companies self") simp
    with soup_all_companies [of self] have "soup s' = soup self" by simp
    with s' h1 h3 show ?thesis by (simp add: current_company_body_def)
  qed
  have e: "fst (all_companies self) = Inr v" if "slots self ''__all_companies'' = Some v" for v
    using that by (simp add: all_companies_def cache_hit)
  from body a b c d e show ?thesis by presburger
qed

lemma current_company_examples:
  "slots (Profile doc_org) ''__current_company'' = None \<and>
   find_tag None [(''data-section'', Exactly ''currentPositionsDetails'')] (soup (Profile doc_org))
     = Some (Tag ''div'' [(''data-section'', Single ''currentPositionsDetails'')]
         [Tag ''span'' [(''class'', Multi [''org''])] [Text ''Acme'']]) \<and>
   find_tag None (by_class ''org'') (Tag ''div'' [(''data-section'', Single ''currentPositionsDetails'')]
         [Tag ''span'' [(''class'', Multi [''org''])] [Text ''Acme'']])
     = Some (Tag ''span'' [(''class'', Multi [''org''])] [Text ''Acme'']) \<and>
   fst (current_company (Profile doc_org)) = Inr (PStr ''Acme'') \<and>
   find_tag None [(''data-section'', Exactly ''currentPositionsDetails'')] (soup (Profile doc_positions)) = None \<and>
   fst (all_companies (Profile doc_positions)) = Inr (PList [PStr ''Initech'', PStr ''Globex'']) \<and>
   fst (current_company (Profile doc_positions)) = Inr (PStr ''Initech'') \<and>
   fst (all_companies (Profile doc_headline)) = Inr (PList []) \<and>
   find_tag None (by_class ''headline title'') (soup (Profile doc_headline))
     = Some (Tag ''p'' [(''class'', Multi [''headline'', ''title''])] [Text ''Engineer'']) \<and>
   fst (current_company (Profile doc_headline)) = Inr (PStr ''Engineer'') \<and>
   fst (all_companies (Profile doc_empty)) = Inr (PList []) \<and>
   find_tag None (by_class ''headline title'') (soup (Profile doc_empty)) = None \<and>
   fst (current_company (Profile doc_empty)) = Inr PNone \<and>
   slots profile_cached_companies ''__current_company'' = None \<and>
   slots profile_cached_companies ''__all_companies'' = Some (PList [PStr ''Hooli'']) \<and>
   fst (current_company profile_cached_companies) = Inr (PStr ''Hooli'')"
proof -
  have s: "slots (Profile doc) ''__current_company'' = None" for doc
    by (simp add: Profile_def)
  have a1: "find_tag None [(''data-section'', Exactly ''currentPositionsDetails'')] (soup (Profile doc_org))
     = Some (Tag ''div'' [(''data-section'', Single ''currentPositionsDetails'')]
         [Tag ''span'' [(''class'', Multi [''org''])] [Text ''Acme'']])"
    by code_simp
  have a2: "find_tag None (by_class ''org'') (Tag ''div'' [(''data-section'', Single ''currentPositionsDetails'')]
         [Tag ''span'' [(''class'', Multi [''org''])] [Text ''Acme'']])
     = Some (Tag ''span'' [(''class'', Multi [''org''])] [Text ''Acme''])"
    by code_simp
  have b1: "find_tag None [(''data-section'', Exactly ''currentPositionsDetails'')] (soup (Profile doc_positions)) = None"
    by code_simp
  have b2: "fst (all_companies (Profile doc_positions)) = Inr (PList [PStr ''Initech'', PStr ''Globex''])"
    by code_simp
  have c1: "find_tag None [(''data-section'', Exactly ''currentPositionsDetails'')] (soup (Profile doc_headline)) = None"
    by code_simp
  have c2: "fst (all_companies (Profile doc_headline)) = Inr (PList [])"
    by code_simp
  have c3: "find_tag None (by_class ''headline title'') (soup (Profile doc_headline))
     = Some (Tag ''p'' [(''class'', Multi [''headline'', ''title''])] [Text ''Engineer''])"
    by code_simp
  have d1: "find_tag None [(''data-section'', Exactly ''currentPositionsDetails'')] (soup (Profile doc_empty)) = None"
    by code_simp
  have d2: "fst (all_companies (Profile doc_empty)) = Inr (PList [])"
    by code_simp
  have d3: "find_tag None (by_class ''headline title'') (soup (Profile doc_empty)) = None"
    by code_simp
  have e0: "slots profile_cached_companies ''__current_company'' = None"
    by (simp add: profile_cached_companies_def)
  have e1: "slots profile_cached_companies ''__all_companies'' = Some (PList [PStr ''Hooli''])"
    by (simp add: profile_cached_companies_def)
  have e2: "find_tag None [(''data-section'', Exactly ''currentPositionsDetails'')] (soup profile_cached_companies) = None"
    by code_simp
  have ra: "fst (current_company (Profile doc_org)) = Inr (PStr ''Acme'')"
    using current_company_order [OF s, of doc_org] a1 a2 by simp
  have rb: "fst (current_company (Profile doc_positions)) = Inr (PStr ''Initech'')"
    using current_company_order [OF s, of doc_positions] b1 b2 by simp
  have rc: "fst (current_company (Profile doc_headline)) = Inr (PStr ''Engineer'')"
    using current_company_order [OF s, of doc_headline] c1 c2 c3 by simp
  have rd: "fst (current_company (Profile doc_empty)) = Inr PNone"
    using current_company_order [OF s, of doc_empty] d1 d2 d3 by simp
  have re: "fst (current_company profile_cached_companies) = Inr (PStr ''Hooli'')"
    using current_company_order [OF e0] e1 e2 by simp
  from s a1 a2 b1 b2 c2 c3 d2 d3 e0 e1 ra rb rc rd re show ?thesis by simp
qed

text \<open>
  Claim C3 fails on the code. On a document whose \<^verbatim>\<open>org\<close> element holds markup beside
  its text, that element has no string and \<^verbatim>\<open>current_company\<close> returns \<^verbatim>\<open>None\<close>
  from inside the first branch, although \<^verbatim>\<open>all_companies\<close> is not empty and the
  headline is there: the first non-empty alternative of the claim is the first company.
\<close>

theorem current_company_org_markup:
  "find_tag None [(''data-section'', Exactly ''currentPositionsDetails'')] doc_org_markup
     = Some (Tag ''div'' [(''data-section'', Single ''currentPositionsDetails'')]
         [Tag ''span'' [(''class'', Multi [''org''])] [Text ''Acme '', Tag ''b'' [] [Text ''Inc'']]]) \<and>
   current_position_text doc_org_markup = None \<and>
   fst (all_companies (Profile doc_org_markup)) = Inr (PList [PStr ''Initech'']) \<and>
   first_company doc_org_markup = Some ''Initech'' \<and>
   headline_text doc_org_markup = Some ''Engineer'' \<and>
   current_company_claimed doc_org_markup = PStr ''Initech'' \<and>
   fst (current_company (Profile doc_org_markup)) = Inr PNone"
proof -
  have s: "find_tag None [(''data-section'', Exactly ''currentPositionsDetails'')] doc_org_markup
     = Some (Tag ''div'' [(''data-section'', Single ''currentPositionsDetails'')]
         [Tag ''span'' [(''class'', Multi [''org''])] [Text ''Acme '', Tag ''b'' [] [Text ''Inc'']]])"
    by code_simp
  have a: "fst (current_company (Profile doc_org_markup)) = Inr PNone"
    by code_simp
  have b: "current_position_text doc_org_markup = None"
    by code_simp
  have l: "fst (all_companies (Profile doc_org_markup)) = Inr (PList [PStr ''Initech''])"
    by code_simp
  have c: "first_company doc_org_markup = Some ''Initech''"
    by code_simp
  have h: "headline_text doc_org_markup = Some ''Engineer''"
    by code_simp
  from s a b l c h show ?thesis by (simp add: current_company_claimed_def)
qed








end
